theory Spec2Isabelle
  imports Main "HOL-Library.Word"
begin

unbundle bit_operations_syntax

section \<open>Data model of change-ddio.c\<close>

type_synonym u8 = "8 word"
type_synonym u16 = "16 word"
type_synonym u32 = "32 word"

text \<open>
  The constants of change-ddio.c (lines 19-22) and the two byte offsets of
  pci/header.h that \<open>find_ddio_device\<close> reads.
\<close>

definition PCI_VENDOR_ID_INTEL :: u16 where
  "PCI_VENDOR_ID_INTEL = 0x8086"

definition SKX_PERFCTRLSTS_0 :: nat where
  "SKX_PERFCTRLSTS_0 = 0x180"

definition SKX_use_allocating_flow_wr_MASK :: u32 where
  "SKX_use_allocating_flow_wr_MASK = 0x80"

definition SKX_nosnoopopwren_MASK :: u32 where
  "SKX_nosnoopopwren_MASK = 0x8"

definition PCI_SECONDARY_BUS :: nat where
  "PCI_SECONDARY_BUS = 0x19"

definition PCI_SUBORDINATE_BUS :: nat where
  "PCI_SUBORDINATE_BUS = 0x1a"

text \<open>
  A \<open>struct pci_dev\<close>, with the fields the program touches, and the device's
  configuration space as a store of bytes by offset (the simulated register file:
  a write is seen by the next read).
\<close>

record pci_dev =
  domain :: int
  bus :: u8
  dev :: u8
  func :: u8
  vendor_id :: u16
  device_id :: u16
  device_class :: u16
  irq :: int
  base_addr0 :: int
  config :: "nat \<Rightarrow> u8"

text \<open>
  What the process does to the outside: lines written by \<open>printf\<close> (the format
  string, with \<open>PRIx32\<close> expanded to \<open>x\<close>, and the argument values after the
  integer promotions) and calls of the PCI library, a device being named by its
  position in the list \<open>pacc->devices\<close>.
\<close>

datatype arg =
    Str string
  | Unsigned u32
  | Signed int
  | Indeterminate
  | LookupName u16 u16

datatype event =
    Printf string "arg list"
  | PciScanBus
  | PciFillInfo nat
  | PciReadByte nat nat
  | PciReadLong nat nat
  | PciWriteLong nat nat u32
  | PciCleanup

text \<open>
  The state of a run: the devices of the machine, in the order \<open>pci_scan_bus\<close> lists
  them; whether the global \<open>pacc\<close> is set (it is NULL until \<open>init_pci_access\<close>); the
  events so far.
\<close>

record world =
  devices :: "pci_dev list"
  pacc :: bool
  trace :: "event list"

text \<open>
  How a call ends: it returns a value, the process ends through \<open>exit(n)\<close>, or
  the call dereferences the NULL \<open>pacc\<close>.
\<close>

datatype 'a outcome = Return 'a | Exit int | Segfault

section \<open>The PCI library, as the program uses it\<close>

definition emit :: "event \<Rightarrow> world \<Rightarrow> world" where
  "emit e w = w\<lparr>trace := trace w @ [e]\<rparr>"

definition printf :: "string \<Rightarrow> arg list \<Rightarrow> world \<Rightarrow> world" where
  "printf fmt args w = emit (Printf fmt args) w"

definition le32 :: "u8 \<Rightarrow> u8 \<Rightarrow> u8 \<Rightarrow> u8 \<Rightarrow> u32" where
  "le32 b0 b1 b2 b3 =
     ucast b0 OR push_bit 8 (ucast b1) OR push_bit 16 (ucast b2) OR push_bit 24 (ucast b3)"

definition read_byte :: "pci_dev \<Rightarrow> nat \<Rightarrow> u8" where
  "read_byte d pos = config d pos"

definition read_long :: "pci_dev \<Rightarrow> nat \<Rightarrow> u32" where
  "read_long d pos =
     le32 (config d pos) (config d (pos + 1)) (config d (pos + 2)) (config d (pos + 3))"

definition write_long :: "pci_dev \<Rightarrow> nat \<Rightarrow> u32 \<Rightarrow> pci_dev" where
  "write_long d pos v =
     d\<lparr>config := (config d)
        (pos := ucast v,
         pos + 1 := ucast (drop_bit 8 v),
         pos + 2 := ucast (drop_bit 16 v),
         pos + 3 := ucast (drop_bit 24 v))\<rparr>"

definition pci_read_long :: "nat \<Rightarrow> nat \<Rightarrow> world \<Rightarrow> u32 \<times> world" where
  "pci_read_long i pos w = (read_long (devices w ! i) pos, emit (PciReadLong i pos) w)"

definition pci_write_long :: "nat \<Rightarrow> nat \<Rightarrow> u32 \<Rightarrow> world \<Rightarrow> world" where
  "pci_write_long i pos v w =
     emit (PciWriteLong i pos v)
       (w\<lparr>devices := (devices w)[i := write_long (devices w ! i) pos v]\<rparr>)"

definition init_pci_access :: "world \<Rightarrow> world" where
  "init_pci_access w = emit PciScanBus (w\<lparr>pacc := True\<rparr>)"

section \<open>find_ddio_device (lines 42-83)\<close>

text \<open>
  The body of the \<open>for\<close> loop over \<open>pacc->devices\<close>: the devices still to visit, the
  position of the first of them, and the loop's variables \<open>lowest_bus\<close> and
  \<open>best_match\<close> (NULL is \<open>None\<close>).
\<close>

fun find_loop ::
  "u8 \<Rightarrow> pci_dev list \<Rightarrow> nat \<Rightarrow> u8 \<Rightarrow> nat option \<Rightarrow> event list
     \<Rightarrow> u8 \<times> nat option \<times> event list" where
  "find_loop nic_bus [] i lowest_bus best_match tr = (lowest_bus, best_match, tr)"
| "find_loop nic_bus (d # ds) i lowest_bus best_match tr =
     (let tr1 = tr @ [PciFillInfo i];
          subordinate = read_byte d PCI_SUBORDINATE_BUS;
          tr2 = tr1 @ [PciReadByte i PCI_SUBORDINATE_BUS];
          secondary = read_byte d PCI_SECONDARY_BUS;
          tr3 = tr2 @ [PciReadByte i PCI_SECONDARY_BUS]
      in if subordinate = nic_bus \<and> secondary \<le> nic_bus \<and> subordinate \<ge> nic_bus
         then if bus d < lowest_bus
              then find_loop nic_bus ds (Suc i) (bus d) (Some i) tr3
              else find_loop nic_bus ds (Suc i) lowest_bus best_match tr3
         else find_loop nic_bus ds (Suc i) lowest_bus best_match tr3)"

definition find_ddio_device :: "u8 \<Rightarrow> world \<Rightarrow> nat option outcome \<times> world" where
  "find_ddio_device nic_bus w =
     (if \<not> pacc w then (Segfault, w)
      else
        let (lowest_bus, best_match, tr) = find_loop nic_bus (devices w) 0 0xff None (trace w);
            w1 = w\<lparr>trace := tr\<rparr>
        in if best_match = None
           then (Return best_match, printf ''Could not find the proper PCIe root!\<newline>'' [] w1)
           else (Return best_match, w1))"

section \<open>ddio_status (lines 101-121)\<close>

definition ddio_status :: "u8 \<Rightarrow> world \<Rightarrow> int outcome \<times> world" where
  "ddio_status nic_bus w0 =
     (let w1 = (if \<not> pacc w0 then init_pci_access w0 else w0)
      in case find_ddio_device nic_bus w1 of
           (Segfault, w2) \<Rightarrow> (Segfault, w2)
         | (Exit c, w2) \<Rightarrow> (Exit c, w2)
         | (Return None, w2) \<Rightarrow> (Exit 1, printf ''No device found!\<newline>'' [] w2)
         | (Return (Some ptr), w2) \<Rightarrow>
             (let (val, w3) = pci_read_long ptr SKX_PERFCTRLSTS_0 w2;
                  w4 = printf ''perfctrlsts_0 val: 0x%x\<newline>'' [Unsigned val] w3;
                  w5 = printf ''NoSnoopOpWrEn val: 0x%x\<newline>''
                         [Unsigned (val AND SKX_nosnoopopwren_MASK)] w4;
                  w6 = printf ''Use_Allocating_Flow_Wr val: 0x%x\<newline>''
                         [Unsigned (val AND SKX_use_allocating_flow_wr_MASK)] w5
              in if val AND SKX_use_allocating_flow_wr_MASK \<noteq> 0
                 then (Return 1, w6)
                 else (Return 0, w6)))"

section \<open>ddio_configure (lines 131-187)\<close>

text \<open>
  Lines 155-170: the new register value, from the value read and the two
  \<open>uint8_t\<close> parameters (C takes any non-zero value as true).
\<close>

definition compute_val_new :: "u32 \<Rightarrow> u8 \<Rightarrow> u8 \<Rightarrow> u32" where
  "compute_val_new val_before use_allocating_flow_wr nosnoopopwren =
     (let val_new = val_before;
          val_new = (if use_allocating_flow_wr \<noteq> 0
                     then val_new OR SKX_use_allocating_flow_wr_MASK
                     else val_new AND NOT SKX_use_allocating_flow_wr_MASK);
          val_new = (if nosnoopopwren \<noteq> 0
                     then val_new OR SKX_nosnoopopwren_MASK
                     else val_new AND NOT SKX_nosnoopopwren_MASK)
      in val_new)"

text \<open>The four \<open>printf\<close> calls that report a register value under a heading.\<close>

definition print_report :: "string \<Rightarrow> u32 \<Rightarrow> world \<Rightarrow> world" where
  "print_report heading val w =
     (let w1 = printf heading [] w;
          w2 = printf ''perfctrlsts_0 register value: 0x%08x\<newline>'' [Unsigned val] w1;
          w3 = printf ''  Use_Allocating_Flow_Wr (bit 7, DDIO): 0x%02x (%s)\<newline>''
                 [Unsigned (drop_bit 7 (val AND SKX_use_allocating_flow_wr_MASK)),
                  Str (if val AND SKX_use_allocating_flow_wr_MASK \<noteq> 0
                       then ''enabled'' else ''disabled'')] w2;
          w4 = printf ''  NoSnoopOpWrEn (bit 3, NS): 0x%02x (%s)\<newline>''
                 [Unsigned (drop_bit 3 (val AND SKX_nosnoopopwren_MASK)),
                  Str (if val AND SKX_nosnoopopwren_MASK \<noteq> 0
                       then ''mem write'' else ''LLC write'')] w3
      in w4)"

definition ddio_configure :: "u8 \<Rightarrow> u8 \<Rightarrow> u8 \<Rightarrow> world \<Rightarrow> unit outcome \<times> world" where
  "ddio_configure nic_bus use_allocating_flow_wr nosnoopopwren w0 =
     (let w1 = (if \<not> pacc w0 then init_pci_access w0 else w0)
      in case find_ddio_device nic_bus w1 of
           (Segfault, w2) \<Rightarrow> (Segfault, w2)
         | (Exit c, w2) \<Rightarrow> (Exit c, w2)
         | (Return None, w2) \<Rightarrow> (Exit 1, printf ''No device found!\<newline>'' [] w2)
         | (Return (Some ptr), w2) \<Rightarrow>
             (let (val_before, w3) = pci_read_long ptr SKX_PERFCTRLSTS_0 w2;
                  w4 = print_report ''\<newline>=== BEFORE Configuration ===\<newline>'' val_before w3;
                  val_new = compute_val_new val_before use_allocating_flow_wr nosnoopopwren;
                  w5 = pci_write_long ptr SKX_PERFCTRLSTS_0 val_new w4;
                  (val_after, w6) = pci_read_long ptr SKX_PERFCTRLSTS_0 w5;
                  w7 = print_report ''\<newline>=== AFTER Configuration ===\<newline>'' val_after w6;
                  w8 = printf ''\<newline>Configuration applied successfully!\<newline>'' [] w7
              in (Return (), w8)))"

section \<open>print_dev_info (lines 189-205)\<close>

text \<open>
  The local \<open>c\<close> is printed without having been assigned; the name comes from
  \<open>pci_lookup_name\<close>.
\<close>

definition print_dev_info :: "nat option \<Rightarrow> world \<Rightarrow> unit outcome \<times> world" where
  "print_dev_info ptr w =
     (case ptr of
        None \<Rightarrow> (Exit 1, printf ''No device found!\<newline>'' [] w)
      | Some i \<Rightarrow>
          (let d = devices w ! i;
               w1 = printf ''========================\<newline>'' [] w;
               w2 = printf
                 ''%04x:%02x:%02x.%d vendor=%04x device=%04x class=%04x irq=%d (pin %d) base0=%lx \<newline>''
                 [Signed (domain d), Signed (uint (bus d)), Signed (uint (dev d)),
                  Signed (uint (func d)), Signed (uint (vendor_id d)),
                  Signed (uint (device_id d)), Signed (uint (device_class d)),
                  Signed (irq d), Indeterminate, Signed (base_addr0 d)] w1;
               w3 = printf '' (%s)\<newline>'' [LookupName (vendor_id d) (device_id d)] w2;
               w4 = printf ''========================\<newline>'' [] w3
           in (Return (), w4)))"

section \<open>main (lines 207-250)\<close>

text \<open>
  The two functions of the C library that \<open>main\<close> calls: \<open>atoi s\<close> and
  \<open>strtol s NULL base\<close>, each giving the integer the call returns.
\<close>

record libc =
  atoi :: "string \<Rightarrow> int"
  strtol :: "string \<Rightarrow> nat \<Rightarrow> int"

definition usage :: "string \<Rightarrow> world \<Rightarrow> world" where
  "usage argv0 w =
     (let w1 = printf ''Usage: %s <port_num> <use_allocating_flow_wr> <nosnoopopwren>\<newline>''
                 [Str argv0] w;
          w2 = printf ''\<newline>Arguments:\<newline>'' [] w1;
          w3 = printf
                 ''  port_num              : End device port number (hex, e.g., 0x9b or decimal)\<newline>''
                 [] w2;
          w4 = printf ''  use_allocating_flow_wr: DDIO enable (1) / disable (0)\<newline>'' [] w3;
          w5 = printf
                 ''  nosnoopopwren         : NS enable for mem write (1) / NS disable for LLC write (0)\<newline>''
                 [] w4;
          w6 = printf ''\<newline>Example:\<newline>'' [] w5;
          w7 = printf ''  %s 0x9b 1 0    # Enable DDIO, disable NS (LLC write)\<newline>''
                 [Str argv0] w6;
          w8 = printf ''  %s 155 0 1     # Disable DDIO, enable NS (mem write)\<newline>''
                 [Str argv0] w7
      in w8)"

text \<open>Lines 233-238: the four lines that echo the parsed parameters.\<close>

definition print_parameters :: "u8 \<Rightarrow> u8 \<Rightarrow> u8 \<Rightarrow> world \<Rightarrow> world" where
  "print_parameters nic_bus use_allocating_flow_wr nosnoopopwren w =
     (let w1 = printf ''Configuration parameters:\<newline>'' [] w;
          w2 = printf ''  Port number (nic_bus): 0x%02x (%d)\<newline>''
                 [Signed (uint nic_bus), Signed (uint nic_bus)] w1;
          w3 = printf ''  Use_Allocating_Flow_Wr (DDIO): %d (%s)\<newline>''
                 [Signed (uint use_allocating_flow_wr),
                  Str (if use_allocating_flow_wr \<noteq> 0 then ''enable'' else ''disable'')] w2;
          w4 = printf ''  NoSnoopOpWrEn (NS): %d (%s)\<newline>''
                 [Signed (uint nosnoopopwren),
                  Str (if nosnoopopwren \<noteq> 0 then ''mem write'' else ''LLC write'')] w3
      in w4)"

text \<open>Lines 233-249: what \<open>main\<close> does once the arguments have passed validation.\<close>

definition run_configuration :: "u8 \<Rightarrow> u8 \<Rightarrow> u8 \<Rightarrow> world \<Rightarrow> int outcome \<times> world" where
  "run_configuration nic_bus use_allocating_flow_wr nosnoopopwren w =
     (let w4 = print_parameters nic_bus use_allocating_flow_wr nosnoopopwren w;
          w5 = init_pci_access w4
      in case find_ddio_device nic_bus w5 of
           (Segfault, w6) \<Rightarrow> (Segfault, w6)
         | (Exit c, w6) \<Rightarrow> (Exit c, w6)
         | (Return ptr, w6) \<Rightarrow>
             (case print_dev_info ptr w6 of
                (Segfault, w7) \<Rightarrow> (Segfault, w7)
              | (Exit c, w7) \<Rightarrow> (Exit c, w7)
              | (Return u, w7) \<Rightarrow>
                  (case ddio_configure nic_bus use_allocating_flow_wr nosnoopopwren w7 of
                     (Segfault, w8) \<Rightarrow> (Segfault, w8)
                   | (Exit c, w8) \<Rightarrow> (Exit c, w8)
                   | (Return u', w8) \<Rightarrow> (Return 0, emit PciCleanup w8))))"

text \<open>
  \<open>argc\<close> is the length of \<open>argv\<close>. With an empty \<open>argv\<close> the usage line prints
  \<open>argv[0]\<close>, which is NULL: glibc's \<open>printf\<close> writes \<open>(null)\<close>. The casts to
  \<open>uint8_t\<close> keep the low eight bits of what \<open>strtol\<close> and \<open>atoi\<close> return.
\<close>

definition main :: "libc \<Rightarrow> string list \<Rightarrow> world \<Rightarrow> int outcome \<times> world" where
  "main lc argv w =
     (if length argv \<noteq> 4
      then (Return 1, usage (case argv of [] \<Rightarrow> ''(null)'' | a # _ \<Rightarrow> a) w)
      else
        let nic_bus = (word_of_int (strtol lc (argv ! 1) 0) :: u8);
            use_allocating_flow_wr = (word_of_int (atoi lc (argv ! 2)) :: u8);
            nosnoopopwren = (word_of_int (atoi lc (argv ! 3)) :: u8)
        in if use_allocating_flow_wr > 1 \<or> nosnoopopwren > 1
           then (Return 1,
                 printf ''Error: use_allocating_flow_wr and nosnoopopwren must be 0 or 1\<newline>''
                   [] w)
           else run_configuration nic_bus use_allocating_flow_wr nosnoopopwren w)"

section \<open>The C library's number parsing, for concrete runs\<close>

text \<open>
  \<open>main\<close> is stated for any \<open>atoi\<close> and \<open>strtol\<close>. Concrete runs use the GNU C
  library's: \<open>strtol\<close> skips white space, takes a sign, with base 0 takes a \<open>0x\<close>
  prefix as hexadecimal and a leading \<open>0\<close> as octal, stops at the first character
  that is no digit of the base and clamps to the range of \<open>long\<close>; \<open>atoi\<close> is
  \<open>(int) strtol(s, NULL, 10)\<close>.
\<close>

definition isspace :: "char \<Rightarrow> bool" where
  "isspace c \<longleftrightarrow> c \<in> set [CHR 0x20, CHR 0x09, CHR 0x0A, CHR 0x0B, CHR 0x0C, CHR 0x0D]"

definition digit_value :: "char \<Rightarrow> nat option" where
  "digit_value c =
     (let k = (of_char c :: nat)
      in if 48 \<le> k \<and> k \<le> 57 then Some (k - 48)
         else if 97 \<le> k \<and> k \<le> 122 then Some (k - 87)
         else if 65 \<le> k \<and> k \<le> 90 then Some (k - 55)
         else None)"

fun parse_digits :: "nat \<Rightarrow> int \<Rightarrow> string \<Rightarrow> int" where
  "parse_digits base acc [] = acc"
| "parse_digits base acc (c # cs) =
     (case digit_value c of
        None \<Rightarrow> acc
      | Some v \<Rightarrow> if v < base then parse_digits base (acc * int base + int v) cs else acc)"

definition clamp_long :: "int \<Rightarrow> int" where
  "clamp_long x = max (- (2 ^ 63)) (min (2 ^ 63 - 1) x)"

definition gnu_strtol :: "string \<Rightarrow> nat \<Rightarrow> int" where
  "gnu_strtol s base =
     (let s1 = dropWhile isspace s;
          neg = (case s1 of c # _ \<Rightarrow> c = CHR ''-'' | [] \<Rightarrow> False);
          s2 = (case s1 of c # r \<Rightarrow> if c = CHR ''-'' \<or> c = CHR ''+'' then r else s1 | [] \<Rightarrow> s1);
          hexpfx = (case s2 of
                      c0 # x # h # _ \<Rightarrow>
                        c0 = CHR ''0'' \<and> (x = CHR ''x'' \<or> x = CHR ''X'') \<and>
                        (case digit_value h of Some v \<Rightarrow> v < 16 | None \<Rightarrow> False)
                    | _ \<Rightarrow> False);
          b = (if base = 0
               then (if hexpfx then 16
                     else case s2 of c # _ \<Rightarrow> if c = CHR ''0'' then 8 else 10 | [] \<Rightarrow> 10)
               else base);
          s3 = (if hexpfx \<and> b = 16 then drop 2 s2 else s2);
          m = parse_digits b 0 s3
      in clamp_long (if neg then - m else m))"

definition gnu_atoi :: "string \<Rightarrow> int" where
  "gnu_atoi s = sint (word_of_int (gnu_strtol s 10) :: 32 word)"

definition gnu_libc :: libc where
  "gnu_libc = \<lparr>atoi = gnu_atoi, strtol = gnu_strtol\<rparr>"

section \<open>Notions the properties are stated with\<close>

text \<open>
  A candidate for a target bus, in the specification's words: the device's
  subordinate bus is the target and its secondary bus does not exceed it.
\<close>

definition candidate :: "u8 \<Rightarrow> pci_dev \<Rightarrow> bool" where
  "candidate nic_bus d \<longleftrightarrow>
     read_byte d PCI_SUBORDINATE_BUS = nic_bus \<and> read_byte d PCI_SECONDARY_BUS \<le> nic_bus"

text \<open>What the scan of \<open>find_ddio_device\<close> selects, as a function of the enumeration.\<close>

definition resolve :: "u8 \<Rightarrow> pci_dev list \<Rightarrow> nat option" where
  "resolve nic_bus ds = fst (snd (find_loop nic_bus ds 0 0xff None []))"

text \<open>The library calls of one pass over \<open>n\<close> devices, the first at position \<open>i\<close>.\<close>

fun probe_events :: "nat \<Rightarrow> nat \<Rightarrow> event list" where
  "probe_events i 0 = []"
| "probe_events i (Suc n) =
     [PciFillInfo i, PciReadByte i PCI_SUBORDINATE_BUS, PciReadByte i PCI_SECONDARY_BUS]
       @ probe_events (Suc i) n"

text \<open>The lines of one register report, and the accesses to 32-bit registers in a trace.\<close>

definition report_events :: "string \<Rightarrow> u32 \<Rightarrow> event list" where
  "report_events heading val = trace (print_report heading val \<lparr>devices = [], pacc = False, trace = []\<rparr>)"

definition parameter_events :: "u8 \<Rightarrow> u8 \<Rightarrow> u8 \<Rightarrow> event list" where
  "parameter_events nic_bus a n =
     trace (print_parameters nic_bus a n \<lparr>devices = [], pacc = False, trace = []\<rparr>)"

definition usage_events :: "string \<Rightarrow> event list" where
  "usage_events argv0 = trace (usage argv0 \<lparr>devices = [], pacc = False, trace = []\<rparr>)"

definition dev_info_events :: "pci_dev \<Rightarrow> event list" where
  "dev_info_events d =
     trace (snd (print_dev_info (Some 0) \<lparr>devices = [d], pacc = False, trace = []\<rparr>))"

fun is_register_access :: "event \<Rightarrow> bool" where
  "is_register_access (PciReadLong i pos) = True"
| "is_register_access (PciWriteLong i pos v) = True"
| "is_register_access e = False"

text \<open>Two devices that the scan cannot tell apart: same bus number, same two bus bytes.\<close>

definition same_probe :: "pci_dev \<Rightarrow> pci_dev \<Rightarrow> bool" where
  "same_probe d d' \<longleftrightarrow>
     bus d = bus d' \<and>
     read_byte d PCI_SUBORDINATE_BUS = read_byte d' PCI_SUBORDINATE_BUS \<and>
     read_byte d PCI_SECONDARY_BUS = read_byte d' PCI_SECONDARY_BUS"

fun is_write :: "event \<Rightarrow> bool" where
  "is_write (PciWriteLong i pos v) = True"
| "is_write e = False"

fun is_library_call :: "event \<Rightarrow> bool" where
  "is_library_call (Printf fmt args) = False"
| "is_library_call e = True"

text \<open>
  A device on bus \<open>b\<close>, device number \<open>n\<close>, with the given secondary and subordinate
  bus bytes and the given value in perfctrlsts_0, every other byte of its
  configuration space zero; and the state of a process that has just started on a
  machine with the given devices.
\<close>

definition bridge :: "u8 \<Rightarrow> u8 \<Rightarrow> u8 \<Rightarrow> u8 \<Rightarrow> u32 \<Rightarrow> pci_dev" where
  "bridge b n secondary subordinate reg =
     write_long
       \<lparr>domain = 0, bus = b, dev = n, func = 0, vendor_id = PCI_VENDOR_ID_INTEL,
        device_id = 0x2030, device_class = 0x0604, irq = 0, base_addr0 = 0,
        config = (\<lambda>pos. 0)(PCI_SECONDARY_BUS := secondary, PCI_SUBORDINATE_BUS := subordinate)\<rparr>
       SKX_PERFCTRLSTS_0 reg"

definition started :: "pci_dev list \<Rightarrow> world" where
  "started ds = \<lparr>devices = ds, pacc = False, trace = []\<rparr>"

section \<open>The device scan\<close>

lemma find_loop_inv:
  "find_loop nic ds i lo best tr = (lo', best', tr') \<Longrightarrow>
     (best' = best \<and> lo' = lo \<and> (\<forall>d\<in>set ds. candidate nic d \<longrightarrow> \<not> bus d < lo))
   \<or> (\<exists>j. best' = Some (i + j) \<and> j < length ds \<and> candidate nic (ds ! j) \<and>
          bus (ds ! j) = lo' \<and> lo' < lo \<and> (\<forall>d\<in>set ds. candidate nic d \<longrightarrow> lo' \<le> bus d))"
proof (induction ds arbitrary: i lo best tr)
  case Nil
  then show ?case by simp
next
  case (Cons d ds)
  let ?tr3 = "tr @ [PciFillInfo i] @ [PciReadByte i PCI_SUBORDINATE_BUS]
                @ [PciReadByte i PCI_SECONDARY_BUS]"
  show ?case
  proof (cases "candidate nic d \<and> bus d < lo")
    case True
    with Cons.prems
    have run: "find_loop nic ds (Suc i) (bus d) (Some i) ?tr3 = (lo', best', tr')"
      by (simp add: candidate_def Let_def)
    from Cons.IH [OF run] show ?thesis
    proof
      assume "best' = Some i \<and> lo' = bus d
                \<and> (\<forall>x\<in>set ds. candidate nic x \<longrightarrow> \<not> bus x < bus d)"
      with True have "best' = Some (i + 0) \<and> 0 < length (d # ds)
          \<and> candidate nic ((d # ds) ! 0) \<and> bus ((d # ds) ! 0) = lo' \<and> lo' < lo
          \<and> (\<forall>x\<in>set (d # ds). candidate nic x \<longrightarrow> lo' \<le> bus x)"
        by auto
      then show ?thesis by blast
    next
      assume "\<exists>j. best' = Some (Suc i + j) \<and> j < length ds \<and> candidate nic (ds ! j)
          \<and> bus (ds ! j) = lo' \<and> lo' < bus d
          \<and> (\<forall>x\<in>set ds. candidate nic x \<longrightarrow> lo' \<le> bus x)"
      then obtain j where "best' = Some (Suc i + j)" "j < length ds"
          "candidate nic (ds ! j)" "bus (ds ! j) = lo'" "lo' < bus d"
          "\<forall>x\<in>set ds. candidate nic x \<longrightarrow> lo' \<le> bus x"
        by blast
      with True have "best' = Some (i + Suc j) \<and> Suc j < length (d # ds)
          \<and> candidate nic ((d # ds) ! Suc j) \<and> bus ((d # ds) ! Suc j) = lo' \<and> lo' < lo
          \<and> (\<forall>x\<in>set (d # ds). candidate nic x \<longrightarrow> lo' \<le> bus x)"
        by auto
      then show ?thesis by blast
    qed
  next
    case False
    with Cons.prems
    have run: "find_loop nic ds (Suc i) lo best ?tr3 = (lo', best', tr')"
      by (auto simp add: candidate_def Let_def split: if_splits)
    from Cons.IH [OF run] show ?thesis
    proof
      assume "best' = best \<and> lo' = lo \<and> (\<forall>x\<in>set ds. candidate nic x \<longrightarrow> \<not> bus x < lo)"
      with False show ?thesis by auto
    next
      assume "\<exists>j. best' = Some (Suc i + j) \<and> j < length ds \<and> candidate nic (ds ! j)
          \<and> bus (ds ! j) = lo' \<and> lo' < lo
          \<and> (\<forall>x\<in>set ds. candidate nic x \<longrightarrow> lo' \<le> bus x)"
      then obtain j where "best' = Some (Suc i + j)" "j < length ds"
          "candidate nic (ds ! j)" "bus (ds ! j) = lo'" "lo' < lo"
          "\<forall>x\<in>set ds. candidate nic x \<longrightarrow> lo' \<le> bus x"
        by blast
      with False have "best' = Some (i + Suc j) \<and> Suc j < length (d # ds)
          \<and> candidate nic ((d # ds) ! Suc j) \<and> bus ((d # ds) ! Suc j) = lo' \<and> lo' < lo
          \<and> (\<forall>x\<in>set (d # ds). candidate nic x \<longrightarrow> lo' \<le> bus x)"
        by auto
      then show ?thesis by blast
    qed
  qed
qed

lemma find_loop_trace:
  "snd (snd (find_loop nic ds i lo best tr)) = tr @ probe_events i (length ds)"
  by (induction ds arbitrary: i lo best tr) (simp_all add: Let_def)

lemma u8_not_less_max: "\<not> (x::u8) < 0xff \<longleftrightarrow> x = 0xff"
proof -
  have "x \<le> - 1" by (rule word_n1_ge)
  moreover have "(- 1 :: u8) = 0xff" by simp
  ultimately have "x \<le> 0xff" by simp
  then show ?thesis by auto
qed

lemma find_ddio_device_fst:
  "pacc w \<Longrightarrow> fst (find_ddio_device nic w)
     = Return (fst (snd (find_loop nic (devices w) 0 0xff None (trace w))))"
  by (simp add: find_ddio_device_def Let_def split: prod.splits)

lemma find_ddio_device_snd:
  "pacc w \<Longrightarrow> snd (find_ddio_device nic w)
     = w\<lparr>trace := trace w @ probe_events 0 (length (devices w)) @
          (if fst (find_ddio_device nic w) = Return None
           then [Printf ''Could not find the proper PCIe root!\<newline>'' []] else [])\<rparr>"
  using find_loop_trace [of nic "devices w" 0 "0xff" None "trace w"]
  by (auto simp add: find_ddio_device_def Let_def printf_def emit_def split: prod.splits)

lemma find_ddio_device_None_iff:
  assumes "pacc w"
  shows "fst (find_ddio_device nic w) = Return None
     \<longleftrightarrow> (\<forall>d\<in>set (devices w). candidate nic d \<longrightarrow> bus d = 0xff)"
proof -
  obtain lo' best' tr' where run:
    "find_loop nic (devices w) 0 0xff None (trace w) = (lo', best', tr')"
    by (cases "find_loop nic (devices w) 0 0xff None (trace w)") auto
  from find_loop_inv [OF run] have "best' = None
     \<longleftrightarrow> (\<forall>d\<in>set (devices w). candidate nic d \<longrightarrow> bus d = 0xff)"
    using u8_not_less_max by (auto dest: nth_mem)
  with assms run show ?thesis by (simp add: find_ddio_device_fst)
qed

lemma find_ddio_device_Some:
  assumes "pacc w" and "fst (find_ddio_device nic w) = Return (Some j)"
  shows "j < length (devices w) \<and> candidate nic (devices w ! j) \<and> bus (devices w ! j) < 0xff
     \<and> (\<forall>d\<in>set (devices w). candidate nic d \<longrightarrow> bus (devices w ! j) \<le> bus d)"
proof -
  obtain lo' best' tr' where run:
    "find_loop nic (devices w) 0 0xff None (trace w) = (lo', best', tr')"
    by (cases "find_loop nic (devices w) 0 0xff None (trace w)") auto
  with assms have "best' = Some j" by (simp add: find_ddio_device_fst)
  with find_loop_inv [OF run] show ?thesis by auto
qed

lemmas run_defs = init_pci_access_def started_def emit_def printf_def bridge_def
  write_long_def read_long_def read_byte_def candidate_def find_ddio_device_def Let_def
  PCI_SECONDARY_BUS_def PCI_SUBORDINATE_BUS_def SKX_PERFCTRLSTS_0_def

text \<open>
  The specification's tie-break scenario: bridges on buses 0x10 and 0x05 both cover
  bus 0x17, and the scan returns the second, the one on bus 0x05.
\<close>

lemma find_ddio_device_tie_break_example:
  "fst (find_ddio_device 0x17
          (init_pci_access (started [bridge 0x10 0 0x11 0x17 0, bridge 0x05 0 0x06 0x17 0])))
     = Return (Some 1)"
  by (simp add: run_defs)

text \<open>
  C5. Once \<open>pacc\<close> is set, a device that \<open>find_ddio_device\<close> returns lies in the
  enumeration and its bus number is strictly below 0xff; and when every candidate
  for the target bus (subordinate bus equal to it, secondary bus not above it) is on
  bus 0xff, the function returns NULL after one pass over the devices and prints
  "Could not find the proper PCIe root!".
\<close>

theorem find_ddio_device_below_0xff:
  assumes "pacc w"
  shows "(\<forall>j. fst (find_ddio_device b w) = Return (Some j)
            \<longrightarrow> j < length (devices w) \<and> bus (devices w ! j) < 0xff)
       \<and> ((\<forall>d\<in>set (devices w). candidate b d \<longrightarrow> bus d = 0xff)
            \<longrightarrow> find_ddio_device b w
                  = (Return None,
                     w\<lparr>trace := trace w @ probe_events 0 (length (devices w))
                          @ [Printf ''Could not find the proper PCIe root!\<newline>'' []]\<rparr>))"
proof (intro conjI allI impI)
  fix j assume "fst (find_ddio_device b w) = Return (Some j)"
  with find_ddio_device_Some [OF assms]
  show "j < length (devices w)" and "bus (devices w ! j) < 0xff" by blast+
next
  assume "\<forall>d\<in>set (devices w). candidate b d \<longrightarrow> bus d = 0xff"
  then have "fst (find_ddio_device b w) = Return None"
    using find_ddio_device_None_iff [OF assms] by blast
  with find_ddio_device_snd [OF assms, of b]
  show "find_ddio_device b w
          = (Return None,
             w\<lparr>trace := trace w @ probe_events 0 (length (devices w))
                  @ [Printf ''Could not find the proper PCIe root!\<newline>'' []]\<rparr>)"
    by (simp add: prod_eq_iff)
qed

theorem find_ddio_device_below_0xff_witness:
  "pacc (init_pci_access (started [bridge 0xff 0 0x17 0x17 0]))
   \<and> devices (init_pci_access (started [bridge 0xff 0 0x17 0x17 0]))
       = [bridge 0xff 0 0x17 0x17 0]
   \<and> candidate 0x17 (bridge 0xff 0 0x17 0x17 0)
   \<and> bus (bridge 0xff 0 0x17 0x17 0) = 0xff
   \<and> fst (find_ddio_device 0x17 (init_pci_access (started [bridge 0xff 0 0x17 0x17 0])))
       = Return None
   \<and> fst (find_ddio_device 0x17 (init_pci_access (started [bridge 0x05 0 0x06 0x17 0])))
       = Return (Some 0)
   \<and> bus (devices (init_pci_access (started [bridge 0x05 0 0x06 0x17 0])) ! 0) < 0xff"
  using
    find_ddio_device_below_0xff [of "init_pci_access (started [bridge 0xff 0 0x17 0x17 0])" "0x17"]
    find_ddio_device_below_0xff [of "init_pci_access (started [bridge 0x05 0 0x06 0x17 0])" "0x17"]
  by (simp add: run_defs)

text \<open>
  C1. The claim asks for a covering bridge whenever the enumeration holds one. On
  the enumeration whose only device sits on bus 0xff with secondary and subordinate
  bus 0x17, that device is a candidate for target bus 0x17, yet
  \<open>find_ddio_device\<close> returns NULL and prints its not-found line: \<open>lowest_bus\<close>
  starts at 0xff and the comparison \<open>dev->bus < lowest_bus\<close> is strict.
\<close>

theorem find_ddio_device_lone_candidate_on_bus_0xff:
  "candidate 0x17 (bridge 0xff 0 0x17 0x17 0)
   \<and> find_ddio_device 0x17 (init_pci_access (started [bridge 0xff 0 0x17 0x17 0]))
       = (Return None,
          \<lparr>devices = [bridge 0xff 0 0x17 0x17 0], pacc = True,
           trace = [PciScanBus, PciFillInfo 0, PciReadByte 0 0x1a, PciReadByte 0 0x19,
                    Printf ''Could not find the proper PCIe root!\<newline>'' []]\<rparr>)"
  by (simp add: run_defs)

text \<open>
  C2. The claim asks for the candidate with the smallest bus number whenever two or
  more candidates exist. With two candidates for target bus 0x17 that both sit on
  bus 0xff (device numbers 0 and 1) the smallest bus number among the candidates is
  0xff, and \<open>find_ddio_device\<close> selects neither: it returns NULL.
\<close>

theorem find_ddio_device_two_candidates_on_bus_0xff:
  "candidate 0x17 (bridge 0xff 0 0x17 0x17 0) \<and> candidate 0x17 (bridge 0xff 1 0x10 0x17 0)
   \<and> fst (find_ddio_device 0x17
            (init_pci_access (started [bridge 0xff 0 0x17 0x17 0, bridge 0xff 1 0x10 0x17 0])))
       = Return None"
  by (simp add: run_defs)

section \<open>The register value\<close>

lemmas mask_defs = SKX_use_allocating_flow_wr_MASK_def SKX_nosnoopopwren_MASK_def

lemma mask7: "SKX_use_allocating_flow_wr_MASK = push_bit 7 1"
  by (simp add: mask_defs)

lemma mask3: "SKX_nosnoopopwren_MASK = push_bit 3 1"
  by (simp add: mask_defs)

lemma bit_compute_val_new:
  "bit (compute_val_new v a n) i \<longleftrightarrow>
     (if i = 7 then a \<noteq> 0 else if i = 3 then n \<noteq> 0 else bit v i)"
  unfolding compute_val_new_def Let_def mask7 mask3
  by (auto simp add: bit_or_iff bit_and_iff bit_not_iff bit_push_bit_iff bit_1_iff
        simp del: push_bit_of_1 dest: bit_imp_le_length)

lemma bit_0x88: "bit (0x88 :: u32) i \<longleftrightarrow> i = 7 \<or> i = 3"
proof -
  have "(0x88 :: u32) = push_bit 7 1 OR push_bit 3 1" by simp
  then show ?thesis
    by (simp only: bit_or_iff bit_push_bit_iff) (auto simp add: bit_1_iff)
qed

lemma compute_val_new_masked:
  "compute_val_new v a n AND NOT 0x88 = v AND NOT 0x88"
proof (rule bit_word_eqI)
  fix i assume "i < LENGTH(32)"
  show "bit (compute_val_new v a n AND NOT 0x88) i = bit (v AND NOT 0x88) i"
    by (auto simp add: bit_and_iff bit_not_iff bit_compute_val_new bit_0x88)
qed

lemma le32_bytes:
  "le32 (ucast v) (ucast (drop_bit 8 v)) (ucast (drop_bit 16 v)) (ucast (drop_bit 24 v)) = v"
proof (rule bit_word_eqI)
  fix i assume "i < LENGTH(32)"
  then have "i < 32" by simp
  then consider "i < 8" | "8 \<le> i \<and> i < 16" | "16 \<le> i \<and> i < 24" | "24 \<le> i \<and> i < 32"
    by linarith
  then show "bit (le32 (ucast v) (ucast (drop_bit 8 v)) (ucast (drop_bit 16 v))
                    (ucast (drop_bit 24 v))) i = bit v i"
    by cases
      (auto simp add: le32_def bit_or_iff bit_push_bit_iff bit_ucast_iff bit_drop_bit_eq)
qed

lemma read_long_write_long: "read_long (write_long d pos v) pos = v"
  by (simp add: read_long_def write_long_def le32_bytes)

text \<open>
  C3. For every 32-bit value read and every pair of flag bytes, bit 7 of the value
  that lines 155-170 compute is set exactly when \<open>use_allocating_flow_wr\<close> is
  non-zero and bit 3 exactly when \<open>nosnoopopwren\<close> is non-zero. From 0x00000000
  with flags (1, 0) the new value is 0x00000080; from 0x00000088 with flags (0, 0) it
  is 0x00000000.
\<close>

theorem compute_val_new_sets_bits_7_and_3:
  "(bit (compute_val_new v a n) 7 \<longleftrightarrow> a \<noteq> 0)
   \<and> (bit (compute_val_new v a n) 3 \<longleftrightarrow> n \<noteq> 0)
   \<and> compute_val_new 0x00000000 1 0 = 0x00000080
   \<and> compute_val_new 0x00000088 0 0 = 0x00000000"
  by (simp add: bit_compute_val_new) (simp add: compute_val_new_def mask_defs)

section \<open>Runs of ddio_configure and ddio_status\<close>

lemma print_report_eq: "print_report h v w = w\<lparr>trace := trace w @ report_events h v\<rparr>"
  by (simp add: print_report_def report_events_def printf_def emit_def Let_def)

lemma find_ddio_device_found:
  assumes "pacc w" and "fst (find_ddio_device nic w) = Return (Some ptr)"
  shows "find_ddio_device nic w
           = (Return (Some ptr), w\<lparr>trace := trace w @ probe_events 0 (length (devices w))\<rparr>)"
  using assms find_ddio_device_snd [OF assms(1), of nic] by (simp add: prod_eq_iff)

lemma find_ddio_device_not_found:
  assumes "pacc w" and "fst (find_ddio_device nic w) = Return None"
  shows "find_ddio_device nic w
           = (Return None,
              w\<lparr>trace := trace w @ probe_events 0 (length (devices w))
                   @ [Printf ''Could not find the proper PCIe root!\<newline>'' []]\<rparr>)"
  using assms find_ddio_device_snd [OF assms(1), of nic] by (simp add: prod_eq_iff)

lemma ddio_configure_found:
  assumes "pacc w" and "fst (find_ddio_device nic w) = Return (Some ptr)"
  shows "ddio_configure nic a n w
     = (Return (),
        w\<lparr>devices := (devices w)[ptr := write_long (devices w ! ptr) SKX_PERFCTRLSTS_0
                         (compute_val_new (read_long (devices w ! ptr) SKX_PERFCTRLSTS_0) a n)],
          trace := trace w @ probe_events 0 (length (devices w))
            @ [PciReadLong ptr SKX_PERFCTRLSTS_0]
            @ report_events ''\<newline>=== BEFORE Configuration ===\<newline>''
                (read_long (devices w ! ptr) SKX_PERFCTRLSTS_0)
            @ [PciWriteLong ptr SKX_PERFCTRLSTS_0
                 (compute_val_new (read_long (devices w ! ptr) SKX_PERFCTRLSTS_0) a n),
               PciReadLong ptr SKX_PERFCTRLSTS_0]
            @ report_events ''\<newline>=== AFTER Configuration ===\<newline>''
                (compute_val_new (read_long (devices w ! ptr) SKX_PERFCTRLSTS_0) a n)
            @ [Printf ''\<newline>Configuration applied successfully!\<newline>'' []]\<rparr>)"
proof -
  from find_ddio_device_Some [OF assms] have "ptr < length (devices w)" by simp
  then show ?thesis
    using assms(1)
    by (simp add: ddio_configure_def find_ddio_device_found [OF assms] pci_read_long_def
          pci_write_long_def emit_def printf_def print_report_eq read_long_write_long Let_def)
qed

lemma ddio_configure_not_found:
  assumes "pacc w" and "fst (find_ddio_device nic w) = Return None"
  shows "ddio_configure nic a n w
     = (Exit 1,
        w\<lparr>trace := trace w @ probe_events 0 (length (devices w))
             @ [Printf ''Could not find the proper PCIe root!\<newline>'' [],
                Printf ''No device found!\<newline>'' []]\<rparr>)"
  using assms(1)
  by (simp add: ddio_configure_def find_ddio_device_not_found [OF assms] emit_def printf_def)

lemma ddio_status_found:
  assumes "pacc w" and "fst (find_ddio_device nic w) = Return (Some ptr)"
  shows "ddio_status nic w
     = (Return (if read_long (devices w ! ptr) SKX_PERFCTRLSTS_0
                    AND SKX_use_allocating_flow_wr_MASK \<noteq> 0 then 1 else 0),
        w\<lparr>trace := trace w @ probe_events 0 (length (devices w))
            @ [PciReadLong ptr SKX_PERFCTRLSTS_0,
               Printf ''perfctrlsts_0 val: 0x%x\<newline>''
                 [Unsigned (read_long (devices w ! ptr) SKX_PERFCTRLSTS_0)],
               Printf ''NoSnoopOpWrEn val: 0x%x\<newline>''
                 [Unsigned (read_long (devices w ! ptr) SKX_PERFCTRLSTS_0
                         AND SKX_nosnoopopwren_MASK)],
               Printf ''Use_Allocating_Flow_Wr val: 0x%x\<newline>''
                 [Unsigned (read_long (devices w ! ptr) SKX_PERFCTRLSTS_0
                         AND SKX_use_allocating_flow_wr_MASK)]]\<rparr>)"
  using assms(1)
  by (simp add: ddio_status_def find_ddio_device_found [OF assms] pci_read_long_def
        emit_def printf_def Let_def)

lemma find_loop_same_probe:
  "list_all2 same_probe ds ds' \<Longrightarrow>
     find_loop nic ds i lo best tr = find_loop nic ds' i lo best tr"
proof (induction ds ds' arbitrary: i lo best tr rule: list_all2_induct)
  case Nil
  then show ?case by simp
next
  case (Cons d ds d' ds')
  then show ?case by (simp add: same_probe_def Let_def)
qed

lemma same_probe_write_long:
  "same_probe d (write_long d SKX_PERFCTRLSTS_0 v)"
  by (simp add: same_probe_def write_long_def read_byte_def SKX_PERFCTRLSTS_0_def
        PCI_SUBORDINATE_BUS_def PCI_SECONDARY_BUS_def)

lemma same_probe_refl: "same_probe d d"
  by (simp add: same_probe_def)

lemma same_probe_list_update:
  "list_all2 same_probe ds (ds[ptr := write_long (ds ! ptr) SKX_PERFCTRLSTS_0 v])"
proof -
  have "same_probe (ds ! i) (ds[ptr := write_long (ds ! ptr) SKX_PERFCTRLSTS_0 v] ! i)"
    if "i < length ds" for i
    using that by (cases "i = ptr") (simp_all add: same_probe_write_long same_probe_refl)
  then show ?thesis by (simp add: list_all2_conv_all_nth)
qed

lemma find_loop_any_trace:
  "fst (snd (find_loop nic ds i lo best tr)) = fst (snd (find_loop nic ds i lo best tr'))"
  by (induction ds arbitrary: i lo best tr tr') (simp_all add: Let_def)

lemma find_ddio_device_after_write:
  assumes "pacc w"
  shows "fst (find_ddio_device nic
          (w\<lparr>devices := (devices w)[ptr := write_long (devices w ! ptr) SKX_PERFCTRLSTS_0 v],
             trace := tr\<rparr>))
     = fst (find_ddio_device nic w)"
proof -
  have "find_loop nic (devices w) 0 0xff None tr
      = find_loop nic
          ((devices w)[ptr := write_long (devices w ! ptr) SKX_PERFCTRLSTS_0 v]) 0 0xff None tr"
    by (rule find_loop_same_probe) (rule same_probe_list_update)
  then have "fst (snd (find_loop nic
          ((devices w)[ptr := write_long (devices w ! ptr) SKX_PERFCTRLSTS_0 v]) 0 0xff None tr))
      = fst (snd (find_loop nic (devices w) 0 0xff None (trace w)))"
    using find_loop_any_trace [of nic "devices w" 0 "0xff" None tr "trace w"] by simp
  with assms show ?thesis by (simp add: find_ddio_device_fst)
qed

lemma bit_int_0x80: "bit (0x80 :: int) i \<longleftrightarrow> i = 7"
proof -
  have "(0x80 :: int) = 2 ^ 7" by simp
  then show ?thesis by (simp only: bit_exp_iff) simp
qed

lemma bit_int_0x8: "bit (0x8 :: int) i \<longleftrightarrow> i = 3"
proof -
  have "(0x8 :: int) = 2 ^ 3" by simp
  then show ?thesis by (simp only: bit_exp_iff) simp
qed

lemma compute_val_new_and_mask7:
  "compute_val_new v a n AND SKX_use_allocating_flow_wr_MASK = (if a \<noteq> 0 then 0x80 else 0)"
  by (rule bit_word_eqI)
     (auto simp add: bit_and_iff bit_compute_val_new mask_defs bit_int_0x80)

lemma compute_val_new_and_mask3:
  "compute_val_new v a n AND SKX_nosnoopopwren_MASK = (if n \<noteq> 0 then 0x8 else 0)"
  by (rule bit_word_eqI)
     (auto simp add: bit_and_iff bit_compute_val_new mask_defs bit_int_0x8)

lemma filter_is_write_probe_events: "filter is_write (probe_events i n) = []"
  by (induction n arbitrary: i) simp_all

lemma filter_is_write_report_events: "filter is_write (report_events h v) = []"
  by (simp add: report_events_def print_report_def printf_def emit_def Let_def)

lemma bridge_reg: "read_long (bridge b n s t reg) SKX_PERFCTRLSTS_0 = reg"
  by (simp add: bridge_def read_long_write_long)

lemma bridge_reg_0x180: "read_long (bridge b n s t reg) 0x180 = reg"
  using bridge_reg [of b n s t reg] by (simp add: SKX_PERFCTRLSTS_0_def)

lemma bridge_probe:
  "bus (bridge b n s t reg) = b"
  "read_byte (bridge b n s t reg) PCI_SECONDARY_BUS = s"
  "read_byte (bridge b n s t reg) PCI_SUBORDINATE_BUS = t"
  by (simp_all add: bridge_def write_long_def read_byte_def PCI_SECONDARY_BUS_def
        PCI_SUBORDINATE_BUS_def SKX_PERFCTRLSTS_0_def)

lemmas scan_defs = init_pci_access_def started_def emit_def printf_def candidate_def
  find_ddio_device_def Let_def bridge_probe

text \<open>
  C4. The value that lines 155-170 compute agrees with the value read on every bit
  position other than 3 and 7 (equivalently, under the mask that clears those two
  bits). In a run of \<open>ddio_configure\<close> that resolves a device, the one register write
  of the run stores that computed value in perfctrlsts_0 of the resolved device, so
  the register afterwards agrees with the register before outside bits 3 and 7.
\<close>

theorem ddio_configure_preserves_other_bits:
  "(\<forall>i. i \<noteq> 3 \<and> i \<noteq> 7 \<longrightarrow> bit (compute_val_new v a n) i = bit v i)
   \<and> compute_val_new v a n AND NOT 0x88 = v AND NOT 0x88
   \<and> (pacc w \<and> fst (find_ddio_device nic w) = Return (Some ptr) \<longrightarrow>
        filter is_write (trace (snd (ddio_configure nic a n w)))
          = filter is_write (trace w)
            @ [PciWriteLong ptr SKX_PERFCTRLSTS_0
                 (compute_val_new (read_long (devices w ! ptr) SKX_PERFCTRLSTS_0) a n)]
        \<and> read_long (devices (snd (ddio_configure nic a n w)) ! ptr) SKX_PERFCTRLSTS_0
              AND NOT 0x88
            = read_long (devices w ! ptr) SKX_PERFCTRLSTS_0 AND NOT 0x88)"
proof (intro conjI allI impI)
  fix i :: nat assume "i \<noteq> 3 \<and> i \<noteq> 7"
  then show "bit (compute_val_new v a n) i = bit v i"
    by (simp add: bit_compute_val_new)
next
  show "compute_val_new v a n AND NOT 0x88 = v AND NOT 0x88"
    by (rule compute_val_new_masked)
next
  assume h: "pacc w \<and> fst (find_ddio_device nic w) = Return (Some ptr)"
  then have run: "pacc w" "fst (find_ddio_device nic w) = Return (Some ptr)" by simp_all
  show "filter is_write (trace (snd (ddio_configure nic a n w)))
          = filter is_write (trace w)
            @ [PciWriteLong ptr SKX_PERFCTRLSTS_0
                 (compute_val_new (read_long (devices w ! ptr) SKX_PERFCTRLSTS_0) a n)]"
    by (simp add: ddio_configure_found [OF run] filter_is_write_probe_events
          filter_is_write_report_events)
  have "ptr < length (devices w)"
    using find_ddio_device_Some [OF run] by simp
  then show "read_long (devices (snd (ddio_configure nic a n w)) ! ptr) SKX_PERFCTRLSTS_0
              AND NOT 0x88
            = read_long (devices w ! ptr) SKX_PERFCTRLSTS_0 AND NOT 0x88"
    using compute_val_new_masked [of "read_long (devices w ! ptr) SKX_PERFCTRLSTS_0" a n]
    by (simp add: ddio_configure_found [OF run] read_long_write_long)
qed

theorem ddio_configure_preserves_other_bits_witness:
  "(0::nat) \<noteq> 3 \<and> (0::nat) \<noteq> 7
   \<and> bit (compute_val_new 0xDEADBE77 1 0) 0 = bit (0xDEADBE77 :: u32) 0
   \<and> pacc (init_pci_access (started [bridge 0x05 0 0x06 0x17 0xDEADBE77]))
   \<and> fst (find_ddio_device 0x17 (init_pci_access (started [bridge 0x05 0 0x06 0x17 0xDEADBE77])))
       = Return (Some 0)
   \<and> filter is_write (trace (snd (ddio_configure 0x17 1 0
         (init_pci_access (started [bridge 0x05 0 0x06 0x17 0xDEADBE77])))))
       = [PciWriteLong 0 0x180 0xDEADBEF7]"
proof -
  have c: "compute_val_new 0xDEADBE77 1 0 = 0xDEADBEF7"
    by (simp add: compute_val_new_def mask_defs)
  show ?thesis
    using ddio_configure_preserves_other_bits
      [where v = "0xDEADBE77" and a = 1 and n = 0 and nic = "0x17" and ptr = 0
         and w = "init_pci_access (started [bridge 0x05 0 0x06 0x17 0xDEADBE77])"]
    by (simp add: scan_defs bridge_reg_0x180 c SKX_PERFCTRLSTS_0_def)
qed

lemma and_mask7_bit:
  "v AND SKX_use_allocating_flow_wr_MASK = (if bit v 7 then 0x80 else 0)"
  by (rule bit_word_eqI) (auto simp add: bit_and_iff mask_defs bit_int_0x80)

lemma and_mask3_bit:
  "v AND SKX_nosnoopopwren_MASK = (if bit v 3 then 0x8 else 0)"
  by (rule bit_word_eqI) (auto simp add: bit_and_iff mask_defs bit_int_0x8)

text \<open>
  C7. The claim has the read after \<open>ddio_configure\<close> with flags (true, false) yield
  both fields, allocatingFlowWrite and nonSnoopWriteEnable. \<open>ddio_status\<close> returns an
  \<open>int\<close> that carries bit 7 alone: after \<open>ddio_configure\<close> with flags (1, 0) and
  after \<open>ddio_configure\<close> with flags (1, 1), which leave 0x00000080 and 0x00000088
  in the register, it hands the same value to its caller.
\<close>

theorem ddio_status_result_hides_bit_3:
  "fst (ddio_status 0x17 (snd (ddio_configure 0x17 1 0
          (init_pci_access (started [bridge 0x05 0 0x06 0x17 0x00000000])))))
     = fst (ddio_status 0x17 (snd (ddio_configure 0x17 1 1
          (init_pci_access (started [bridge 0x05 0 0x06 0x17 0x00000000])))))
   \<and> read_long (devices (snd (ddio_configure 0x17 1 0
          (init_pci_access (started [bridge 0x05 0 0x06 0x17 0x00000000])))) ! 0)
        SKX_PERFCTRLSTS_0 = 0x00000080
   \<and> read_long (devices (snd (ddio_configure 0x17 1 1
          (init_pci_access (started [bridge 0x05 0 0x06 0x17 0x00000000])))) ! 0)
        SKX_PERFCTRLSTS_0 = 0x00000088"
proof -
  let ?W = "init_pci_access (started [bridge 0x05 0 0x06 0x17 0x00000000])"
  have p: "pacc ?W" and f: "fst (find_ddio_device 0x17 ?W) = Return (Some 0)"
    by (simp_all add: scan_defs)
  have d: "devices ?W = [bridge 0x05 0 0x06 0x17 0x00000000]"
    by (simp add: init_pci_access_def started_def emit_def)
  have c0: "compute_val_new 0x00000000 1 0 = 0x00000080"
    and c1: "compute_val_new 0x00000000 1 1 = 0x00000088"
    by (simp_all add: compute_val_new_def mask_defs)
  have m0: "(0x00000080 :: u32) AND SKX_use_allocating_flow_wr_MASK \<noteq> 0"
    and m1: "(0x00000088 :: u32) AND SKX_use_allocating_flow_wr_MASK \<noteq> 0"
    by (simp_all add: mask_defs)
  let ?A = "snd (ddio_configure 0x17 1 0 ?W)" and ?B = "snd (ddio_configure 0x17 1 1 ?W)"
  have pa: "pacc ?A" and pb: "pacc ?B"
    using p by (simp_all add: ddio_configure_found [OF p f])
  have "fst (find_ddio_device 0x17 ?A) = fst (find_ddio_device 0x17 ?W)"
    using find_ddio_device_after_write
      [OF p, where nic = "0x17" and ptr = 0 and v = "compute_val_new 0x00000000 1 0"]
    by (simp add: ddio_configure_found [OF p f] d bridge_reg)
  then have fa: "fst (find_ddio_device 0x17 ?A) = Return (Some 0)" using f by simp
  have "fst (find_ddio_device 0x17 ?B) = fst (find_ddio_device 0x17 ?W)"
    using find_ddio_device_after_write
      [OF p, where nic = "0x17" and ptr = 0 and v = "compute_val_new 0x00000000 1 1"]
    by (simp add: ddio_configure_found [OF p f] d bridge_reg)
  then have fb: "fst (find_ddio_device 0x17 ?B) = Return (Some 0)" using f by simp
  have ra: "read_long (devices ?A ! 0) SKX_PERFCTRLSTS_0 = 0x00000080"
    and rb: "read_long (devices ?B ! 0) SKX_PERFCTRLSTS_0 = 0x00000088"
    by (simp_all add: ddio_configure_found [OF p f] d bridge_reg read_long_write_long c0 c1)
  have "fst (ddio_status 0x17 ?A) = Return 1"
    unfolding ddio_status_found [OF pa fa] ra using m0 by simp
  moreover have "fst (ddio_status 0x17 ?B) = Return 1"
    unfolding ddio_status_found [OF pb fb] rb using m1 by simp
  ultimately show ?thesis using ra rb by simp
qed

text \<open>
  C7, as the code has it. Once \<open>pacc\<close> is set and the scan resolves a device for
  the bus, \<open>ddio_status\<close> scans once more, reads perfctrlsts_0 once, prints the value
  read, that value masked to bit 3 and that value masked to bit 7, and returns 1 when
  bit 7 of the value read is set and 0 otherwise; bit 3 is printed, not returned. On
  the simulated register file, \<open>ddio_configure\<close> with any flags returns, and
  \<open>ddio_status\<close> run on the state it leaves returns 1 exactly when
  \<open>use_allocating_flow_wr\<close> was non-zero, and prints the value written, 0x8 or 0x0
  as \<open>nosnoopopwren\<close> was non-zero or zero, and 0x80 or 0x0 as
  \<open>use_allocating_flow_wr\<close> was non-zero or zero. With flags (1, 0): it returns 1
  and prints 0x0 for bit 3 and 0x80 for bit 7.
\<close>

theorem configure_then_status_round_trip:
  assumes "pacc w" and "fst (find_ddio_device nic w) = Return (Some ptr)"
  shows "ddio_status nic w
       = (Return (if bit (read_long (devices w ! ptr) SKX_PERFCTRLSTS_0) 7 then 1 else 0),
          w\<lparr>trace := trace w @ probe_events 0 (length (devices w))
            @ [PciReadLong ptr SKX_PERFCTRLSTS_0,
               Printf ''perfctrlsts_0 val: 0x%x\<newline>''
                 [Unsigned (read_long (devices w ! ptr) SKX_PERFCTRLSTS_0)],
               Printf ''NoSnoopOpWrEn val: 0x%x\<newline>''
                 [Unsigned (if bit (read_long (devices w ! ptr) SKX_PERFCTRLSTS_0) 3
                            then 0x8 else 0)],
               Printf ''Use_Allocating_Flow_Wr val: 0x%x\<newline>''
                 [Unsigned (if bit (read_long (devices w ! ptr) SKX_PERFCTRLSTS_0) 7
                            then 0x80 else 0)]]\<rparr>)
     \<and> fst (ddio_configure nic a n w) = Return ()
     \<and> fst (ddio_status nic (snd (ddio_configure nic a n w)))
         = Return (if a \<noteq> 0 then 1 else 0)
     \<and> trace (snd (ddio_status nic (snd (ddio_configure nic a n w))))
         = trace (snd (ddio_configure nic a n w)) @ probe_events 0 (length (devices w))
           @ [PciReadLong ptr SKX_PERFCTRLSTS_0,
              Printf ''perfctrlsts_0 val: 0x%x\<newline>''
                [Unsigned (compute_val_new (read_long (devices w ! ptr) SKX_PERFCTRLSTS_0) a n)],
              Printf ''NoSnoopOpWrEn val: 0x%x\<newline>''
                [Unsigned (if n \<noteq> 0 then 0x8 else 0)],
              Printf ''Use_Allocating_Flow_Wr val: 0x%x\<newline>''
                [Unsigned (if a \<noteq> 0 then 0x80 else 0)]]"
proof -
  let ?v = "read_long (devices w ! ptr) SKX_PERFCTRLSTS_0"
  let ?vn = "compute_val_new ?v a n"
  let ?w' = "snd (ddio_configure nic a n w)"
  have len: "ptr < length (devices w)"
    using find_ddio_device_Some [OF assms] by simp
  have rd: "ddio_status nic w
       = (Return (if bit ?v 7 then 1 else 0),
          w\<lparr>trace := trace w @ probe_events 0 (length (devices w))
            @ [PciReadLong ptr SKX_PERFCTRLSTS_0,
               Printf ''perfctrlsts_0 val: 0x%x\<newline>'' [Unsigned ?v],
               Printf ''NoSnoopOpWrEn val: 0x%x\<newline>''
                 [Unsigned (if bit ?v 3 then 0x8 else 0)],
               Printf ''Use_Allocating_Flow_Wr val: 0x%x\<newline>''
                 [Unsigned (if bit ?v 7 then 0x80 else 0)]]\<rparr>)"
    unfolding ddio_status_found [OF assms] and_mask7_bit and_mask3_bit by simp
  have cfg: "fst (ddio_configure nic a n w) = Return ()"
    by (simp add: ddio_configure_found [OF assms])
  have dev': "devices ?w' = (devices w)[ptr := write_long (devices w ! ptr) SKX_PERFCTRLSTS_0 ?vn]"
    and pacc': "pacc ?w'"
    using assms(1) by (simp_all add: ddio_configure_found [OF assms])
  have "fst (find_ddio_device nic ?w') = fst (find_ddio_device nic w)"
    using find_ddio_device_after_write [OF assms(1), where nic = nic and ptr = ptr and v = ?vn]
    by (simp add: ddio_configure_found [OF assms])
  then have found': "fst (find_ddio_device nic ?w') = Return (Some ptr)"
    using assms(2) by simp
  have after: "fst (ddio_status nic ?w') = Return (if a \<noteq> 0 then 1 else 0)
     \<and> trace (snd (ddio_status nic ?w'))
         = trace ?w' @ probe_events 0 (length (devices w))
           @ [PciReadLong ptr SKX_PERFCTRLSTS_0,
              Printf ''perfctrlsts_0 val: 0x%x\<newline>'' [Unsigned ?vn],
              Printf ''NoSnoopOpWrEn val: 0x%x\<newline>''
                [Unsigned (if n \<noteq> 0 then 0x8 else 0)],
              Printf ''Use_Allocating_Flow_Wr val: 0x%x\<newline>''
                [Unsigned (if a \<noteq> 0 then 0x80 else 0)]]"
    using len
    by (simp add: ddio_status_found [OF pacc' found'] dev' read_long_write_long
          compute_val_new_and_mask7 compute_val_new_and_mask3)
  from rd cfg after show ?thesis by (simp only: simp_thms)
qed

theorem configure_then_status_round_trip_witness:
  "pacc (init_pci_access (started [bridge 0x05 0 0x06 0x17 0x00000008]))
   \<and> fst (find_ddio_device 0x17 (init_pci_access (started [bridge 0x05 0 0x06 0x17 0x00000008])))
       = Return (Some 0)
   \<and> fst (ddio_status 0x17 (init_pci_access (started [bridge 0x05 0 0x06 0x17 0x00000008])))
       = Return 0
   \<and> fst (ddio_configure 0x17 1 0 (init_pci_access (started [bridge 0x05 0 0x06 0x17 0x00000008])))
       = Return ()
   \<and> fst (ddio_status 0x17 (snd (ddio_configure 0x17 1 0
            (init_pci_access (started [bridge 0x05 0 0x06 0x17 0x00000008])))))
       = Return 1
   \<and> fst (ddio_status 0x17 (snd (ddio_configure 0x17 0 1
            (init_pci_access (started [bridge 0x05 0 0x06 0x17 0x00000008])))))
       = Return 0"
proof -
  let ?W = "init_pci_access (started [bridge 0x05 0 0x06 0x17 0x00000008])"
  have p: "pacc ?W" and f: "fst (find_ddio_device 0x17 ?W) = Return (Some 0)"
    by (simp_all add: scan_defs)
  have d: "devices ?W = [bridge 0x05 0 0x06 0x17 0x00000008]"
    by (simp add: init_pci_access_def started_def emit_def)
  have b: "\<not> bit (0x00000008 :: u32) 7"
    by (simp add: bit_int_0x8)
  from configure_then_status_round_trip [OF p f, of 1 0]
    configure_then_status_round_trip [OF p f, of 0 1] p f b
  show ?thesis by (simp add: d bridge_reg)
qed




section \<open>Runs of main\<close>

lemma usage_eq: "usage a w = w\<lparr>trace := trace w @ usage_events a\<rparr>"
  by (simp add: usage_def usage_events_def printf_def emit_def Let_def)

lemma print_parameters_eq:
  "print_parameters nic a n w = w\<lparr>trace := trace w @ parameter_events nic a n\<rparr>"
  by (simp add: print_parameters_def parameter_events_def printf_def emit_def Let_def)

lemma print_dev_info_Some:
  "print_dev_info (Some i) w
     = (Return (), w\<lparr>trace := trace w @ dev_info_events (devices w ! i)\<rparr>)"
  by (simp add: print_dev_info_def dev_info_events_def printf_def emit_def Let_def)

lemma print_dev_info_None:
  "print_dev_info None w = (Exit 1, w\<lparr>trace := trace w @ [Printf ''No device found!\<newline>'' []]\<rparr>)"
  by (simp add: print_dev_info_def printf_def emit_def)

lemma find_ddio_device_resolve:
  "pacc w \<Longrightarrow> fst (find_ddio_device nic w) = Return (resolve nic (devices w))"
  using find_loop_any_trace [of nic "devices w" 0 "0xff" None "trace w" "[]"]
  by (simp add: find_ddio_device_fst resolve_def)

lemma resolve_None_iff:
  "resolve nic ds = None \<longleftrightarrow> (\<forall>d\<in>set ds. candidate nic d \<longrightarrow> bus d = 0xff)"
  using find_ddio_device_None_iff [of "\<lparr>devices = ds, pacc = True, trace = []\<rparr>" nic]
  by (simp add: find_ddio_device_resolve)

lemma resolve_write_long:
  "resolve nic (ds[ptr := write_long (ds ! ptr) SKX_PERFCTRLSTS_0 v]) = resolve nic ds"
proof -
  have "find_loop nic ds 0 0xff None []
      = find_loop nic (ds[ptr := write_long (ds ! ptr) SKX_PERFCTRLSTS_0 v]) 0 0xff None []"
    by (rule find_loop_same_probe) (rule same_probe_list_update)
  then show ?thesis by (simp add: resolve_def)
qed

lemma run_configuration_not_found:
  assumes "resolve nic (devices w) = None"
  shows "run_configuration nic a n w
     = (Exit 1,
        w\<lparr>pacc := True,
          trace := trace w @ parameter_events nic a n @ [PciScanBus]
            @ probe_events 0 (length (devices w))
            @ [Printf ''Could not find the proper PCIe root!\<newline>'' [],
               Printf ''No device found!\<newline>'' []]\<rparr>)"
proof -
  let ?w5 = "init_pci_access (print_parameters nic a n w)"
  have p: "pacc ?w5" and d: "devices ?w5 = devices w"
    and t: "trace ?w5 = trace w @ parameter_events nic a n @ [PciScanBus]"
    by (simp_all add: init_pci_access_def emit_def print_parameters_eq)
  have f: "fst (find_ddio_device nic ?w5) = Return None"
    using assms by (simp add: find_ddio_device_resolve [OF p] d)
  have e: "?w5\<lparr>trace := trace ?w5 @ probe_events 0 (length (devices ?w5))
                   @ [Printf ''Could not find the proper PCIe root!\<newline>'' []]\<rparr>
         = w\<lparr>pacc := True,
          trace := trace w @ parameter_events nic a n @ [PciScanBus]
            @ probe_events 0 (length (devices w))
            @ [Printf ''Could not find the proper PCIe root!\<newline>'' []]\<rparr>"
    by (simp add: init_pci_access_def emit_def print_parameters_eq)
  show ?thesis
    by (simp add: run_configuration_def Let_def find_ddio_device_not_found [OF p f] e
          print_dev_info_None)
qed

lemma run_configuration_found:
  assumes "resolve nic (devices w) = Some ptr"
  shows "run_configuration nic a n w
     = (Return 0,
        w\<lparr>devices := (devices w)[ptr := write_long (devices w ! ptr) SKX_PERFCTRLSTS_0
                         (compute_val_new (read_long (devices w ! ptr) SKX_PERFCTRLSTS_0) a n)],
          pacc := True,
          trace := trace w @ parameter_events nic a n @ [PciScanBus]
            @ probe_events 0 (length (devices w))
            @ dev_info_events (devices w ! ptr)
            @ probe_events 0 (length (devices w))
            @ [PciReadLong ptr SKX_PERFCTRLSTS_0]
            @ report_events ''\<newline>=== BEFORE Configuration ===\<newline>''
                (read_long (devices w ! ptr) SKX_PERFCTRLSTS_0)
            @ [PciWriteLong ptr SKX_PERFCTRLSTS_0
                 (compute_val_new (read_long (devices w ! ptr) SKX_PERFCTRLSTS_0) a n),
               PciReadLong ptr SKX_PERFCTRLSTS_0]
            @ report_events ''\<newline>=== AFTER Configuration ===\<newline>''
                (compute_val_new (read_long (devices w ! ptr) SKX_PERFCTRLSTS_0) a n)
            @ [Printf ''\<newline>Configuration applied successfully!\<newline>'' [], PciCleanup]\<rparr>)"
proof -
  let ?w5 = "init_pci_access (print_parameters nic a n w)"
  have p: "pacc ?w5" and d: "devices ?w5 = devices w"
    by (simp_all add: init_pci_access_def emit_def print_parameters_eq)
  have f: "fst (find_ddio_device nic ?w5) = Return (Some ptr)"
    using assms by (simp add: find_ddio_device_resolve [OF p] d)
  let ?w7 = "?w5\<lparr>trace := trace ?w5 @ probe_events 0 (length (devices ?w5))
                          @ dev_info_events (devices ?w5 ! ptr)\<rparr>"
  have p7: "pacc ?w7" and d7: "devices ?w7 = devices w"
    by (simp_all add: init_pci_access_def emit_def print_parameters_eq)
  have "fst (find_ddio_device nic ?w7) = Return (resolve nic (devices ?w7))"
    by (rule find_ddio_device_resolve [OF p7])
  also have "\<dots> = Return (Some ptr)"
    by (simp only: d7 assms)
  finally have f7: "fst (find_ddio_device nic ?w7) = Return (Some ptr)" .
  have step: "run_configuration nic a n w
      = (case ddio_configure nic a n ?w7 of
           (Segfault, w8) \<Rightarrow> (Segfault, w8)
         | (Exit c, w8) \<Rightarrow> (Exit c, w8)
         | (Return u', w8) \<Rightarrow> (Return 0, emit PciCleanup w8))"
    by (simp add: run_configuration_def Let_def find_ddio_device_found [OF p f]
          print_dev_info_Some)
  show ?thesis
    unfolding step ddio_configure_found [OF p7 f7]
    by (simp add: init_pci_access_def emit_def print_parameters_eq)
qed

lemma main_usage:
  "length argv \<noteq> 4 \<Longrightarrow>
     main lc argv w
       = (Return 1,
          w\<lparr>trace := trace w @ usage_events (case argv of [] \<Rightarrow> ''(null)'' | a # _ \<Rightarrow> a)\<rparr>)"
  by (simp add: main_def usage_eq)

lemma main_bad_flag:
  "length argv = 4 \<Longrightarrow>
   (word_of_int (atoi lc (argv ! 2)) :: u8) > 1 \<or> (word_of_int (atoi lc (argv ! 3)) :: u8) > 1 \<Longrightarrow>
     main lc argv w
       = (Return 1,
          w\<lparr>trace := trace w @
             [Printf ''Error: use_allocating_flow_wr and nosnoopopwren must be 0 or 1\<newline>'' []]\<rparr>)"
  by (simp add: main_def Let_def printf_def emit_def)

lemma main_accepted:
  "length argv = 4 \<Longrightarrow>
   (word_of_int (atoi lc (argv ! 2)) :: u8) \<le> 1 \<Longrightarrow> (word_of_int (atoi lc (argv ! 3)) :: u8) \<le> 1 \<Longrightarrow>
     main lc argv w
       = run_configuration (word_of_int (strtol lc (argv ! 1) 0))
           (word_of_int (atoi lc (argv ! 2))) (word_of_int (atoi lc (argv ! 3))) w"
  by (simp add: main_def Let_def not_less [symmetric])

lemma u8_of_int_le_1_iff:
  "(word_of_int k :: u8) \<le> 1 \<longleftrightarrow> k mod 256 = 0 \<or> k mod 256 = 1"
proof -
  have "(word_of_int k :: u8) \<le> 1 \<longleftrightarrow> uint (word_of_int k :: u8) \<le> 1"
    by (simp add: word_le_def)
  also have "\<dots> \<longleftrightarrow> k mod 256 \<le> 1"
    by (simp add: uint_word_of_int take_bit_eq_mod)
  also have "\<dots> \<longleftrightarrow> k mod 256 = 0 \<or> k mod 256 = 1"
  proof -
    have "0 \<le> k mod 256" by simp
    then show ?thesis by linarith
  qed
  finally show ?thesis .
qed

lemma filter_is_register_access_probe_events: "filter is_register_access (probe_events i n) = []"
  by (induction n arbitrary: i) simp_all

lemma filter_is_register_access_parameter_events:
  "filter is_register_access (parameter_events nic a n) = []"
  by (simp add: parameter_events_def print_parameters_def printf_def emit_def Let_def)

lemma u8_of_int_mod: "(word_of_int (k mod 256) :: u8) = word_of_int k"
  by (simp add: word_of_int_eq_iff take_bit_eq_mod)

lemma gnu_atoi_examples:
  "gnu_atoi ''0'' = 0" "gnu_atoi ''1'' = 1" "gnu_atoi ''256'' = 256" "gnu_atoi ''257'' = 257"
  by code_simp+

lemma gnu_strtol_example: "gnu_strtol ''0x17'' 0 = 0x17"
  by code_simp

lemmas libc_runs = gnu_libc_def gnu_atoi_examples gnu_strtol_example

lemma filter_is_library_call_usage_events: "filter is_library_call (usage_events a) = []"
  by (simp add: usage_events_def usage_def printf_def emit_def Let_def)

lemma main_rejected:
  assumes "length argv \<noteq> 4
     \<or> (word_of_int (atoi lc (argv ! 2)) :: u8) > 1
     \<or> (word_of_int (atoi lc (argv ! 3)) :: u8) > 1"
  shows "fst (main lc argv w) = Return 1
     \<and> devices (snd (main lc argv w)) = devices w
     \<and> pacc (snd (main lc argv w)) = pacc w
     \<and> filter is_library_call (trace (snd (main lc argv w)))
         = filter is_library_call (trace w)"
proof (cases "length argv = 4")
  case True
  with assms show ?thesis by (simp add: main_bad_flag)
next
  case False
  then show ?thesis by (simp add: main_usage filter_is_library_call_usage_events)
qed

lemma ddio_configure_init:
  "\<not> pacc w \<Longrightarrow> ddio_configure nic a n w = ddio_configure nic a n (init_pci_access w)"
  by (simp add: ddio_configure_def init_pci_access_def emit_def)

lemma ddio_configure_no_candidate:
  assumes "\<forall>d\<in>set (devices w). \<not> candidate nic d"
  shows "ddio_configure nic a n w
     = (Exit 1,
        w\<lparr>pacc := True,
          trace := trace w @ (if pacc w then [] else [PciScanBus])
            @ probe_events 0 (length (devices w))
            @ [Printf ''Could not find the proper PCIe root!\<newline>'' [],
               Printf ''No device found!\<newline>'' []]\<rparr>)"
proof (cases "pacc w")
  case True
  have "fst (find_ddio_device nic w) = Return None"
    using assms by (simp add: find_ddio_device_None_iff [OF True])
  from ddio_configure_not_found [OF True this] True show ?thesis by simp
next
  case False
  let ?w1 = "init_pci_access w"
  have p: "pacc ?w1" and d: "devices ?w1 = devices w"
    by (simp_all add: init_pci_access_def emit_def)
  have "fst (find_ddio_device nic ?w1) = Return None"
    using assms by (simp add: find_ddio_device_None_iff [OF p] d)
  from ddio_configure_not_found [OF p this] False show ?thesis
    by (simp add: ddio_configure_init) (simp add: init_pci_access_def emit_def)
qed

text \<open>
  C6. When the arguments pass validation and no device of the enumeration has its
  subordinate bus equal to the target bus and its secondary bus not above it,
  \<open>main\<close> echoes the parameters, scans the devices once, prints "Could not find the
  proper PCIe root!" and "No device found!" and ends through \<open>exit(1)\<close> in
  \<open>print_dev_info\<close>; the run adds no read or write of a 32-bit register to the
  trace. A direct call of \<open>ddio_configure\<close> on such an enumeration ends through
  \<open>exit(1)\<close> as well, without a register access.
\<close>

theorem main_no_covering_bridge:
  assumes "length argv = 4"
    and "(word_of_int (atoi lc (argv ! 2)) :: u8) \<le> 1"
    and "(word_of_int (atoi lc (argv ! 3)) :: u8) \<le> 1"
    and "\<forall>d\<in>set (devices w). \<not> candidate (word_of_int (strtol lc (argv ! 1) 0)) d"
  shows "main lc argv w
     = (Exit 1,
        w\<lparr>pacc := True,
          trace := trace w
            @ parameter_events (word_of_int (strtol lc (argv ! 1) 0))
                (word_of_int (atoi lc (argv ! 2))) (word_of_int (atoi lc (argv ! 3)))
            @ [PciScanBus]
            @ probe_events 0 (length (devices w))
            @ [Printf ''Could not find the proper PCIe root!\<newline>'' [],
               Printf ''No device found!\<newline>'' []]\<rparr>)
     \<and> filter is_register_access (trace (snd (main lc argv w)))
         = filter is_register_access (trace w)
     \<and> fst (ddio_configure (word_of_int (strtol lc (argv ! 1) 0)) a n w) = Exit 1
     \<and> filter is_register_access
         (trace (snd (ddio_configure (word_of_int (strtol lc (argv ! 1) 0)) a n w)))
         = filter is_register_access (trace w)"
proof -
  let ?nic = "word_of_int (strtol lc (argv ! 1) 0) :: u8"
  from assms(4) have "resolve ?nic (devices w) = None"
    by (simp add: resolve_None_iff)
  then have run: "main lc argv w
     = (Exit 1,
        w\<lparr>pacc := True,
          trace := trace w
            @ parameter_events ?nic
                (word_of_int (atoi lc (argv ! 2))) (word_of_int (atoi lc (argv ! 3)))
            @ [PciScanBus]
            @ probe_events 0 (length (devices w))
            @ [Printf ''Could not find the proper PCIe root!\<newline>'' [],
               Printf ''No device found!\<newline>'' []]\<rparr>)"
    by (simp add: main_accepted [OF assms(1-3)] run_configuration_not_found)
  show ?thesis
    unfolding run ddio_configure_no_candidate [OF assms(4)]
    by (simp add: filter_is_register_access_probe_events
          filter_is_register_access_parameter_events)
qed

theorem main_no_covering_bridge_witness:
  "length [''./change-ddio'', ''0x17'', ''1'', ''0''] = 4
   \<and> gnu_atoi ''1'' = 1 \<and> gnu_atoi ''0'' = 0 \<and> gnu_strtol ''0x17'' 0 = 0x17
   \<and> \<not> candidate 0x17 (bridge 0x00 0 0x01 0x16 0x00000000)
   \<and> fst (main gnu_libc [''./change-ddio'', ''0x17'', ''1'', ''0'']
             (started [bridge 0x00 0 0x01 0x16 0x00000000])) = Exit 1
   \<and> filter is_register_access
        (trace (snd (main gnu_libc [''./change-ddio'', ''0x17'', ''1'', ''0'']
                       (started [bridge 0x00 0 0x01 0x16 0x00000000])))) = []
   \<and> fst (ddio_configure 0x17 1 0 (started [bridge 0x00 0 0x01 0x16 0x00000000])) = Exit 1"
  using main_no_covering_bridge
    [where lc = gnu_libc and argv = "[''./change-ddio'', ''0x17'', ''1'', ''0'']"
       and w = "started [bridge 0x00 0 0x01 0x16 0x00000000]" and a = 1 and n = 0]
  by (simp add: libc_runs started_def candidate_def bridge_probe
        filter_is_register_access_parameter_events)

text \<open>
  C8. The claim has every flag value other than 0 and 1 rejected before any device
  is enumerated. With the flag argument "256", \<open>atoi\<close> returns 256, the cast to
  \<open>uint8_t\<close> leaves 0, the check \<open>use_allocating_flow_wr > 1\<close> passes, and \<open>main\<close>
  scans the bus, clears bit 7 of perfctrlsts_0 (0x00000080 becomes 0x00000000) and
  returns 0.
\<close>

theorem main_accepts_flag_256:
  "gnu_atoi ''256'' = 256
   \<and> fst (main gnu_libc [''./change-ddio'', ''0x17'', ''256'', ''0'']
             (started [bridge 0x05 0 0x06 0x17 0x00000080])) = Return 0
   \<and> filter is_library_call
        (trace (snd (main gnu_libc [''./change-ddio'', ''0x17'', ''256'', ''0'']
                       (started [bridge 0x05 0 0x06 0x17 0x00000080]))))
       = [PciScanBus,
          PciFillInfo 0, PciReadByte 0 0x1a, PciReadByte 0 0x19,
          PciFillInfo 0, PciReadByte 0 0x1a, PciReadByte 0 0x19,
          PciReadLong 0 0x180, PciWriteLong 0 0x180 0x00000000, PciReadLong 0 0x180,
          PciCleanup]"
proof -
  let ?argv = "[''./change-ddio'', ''0x17'', ''256'', ''0'']"
  let ?W = "started [bridge 0x05 0 0x06 0x17 0x00000080]"
  have a: "gnu_atoi ''256'' = 256" and b: "gnu_atoi ''0'' = 0"
    and c: "gnu_strtol ''0x17'' 0 = 0x17"
    by (simp_all add: libc_runs)
  have f2: "(word_of_int (atoi gnu_libc (?argv ! 2)) :: u8) = 0"
    using u8_of_int_mod [of 256] by (simp add: gnu_libc_def a)
  have f3: "(word_of_int (atoi gnu_libc (?argv ! 3)) :: u8) = 0"
    by (simp add: gnu_libc_def b)
  have f1: "(word_of_int (strtol gnu_libc (?argv ! 1) 0) :: u8) = 0x17"
    by (simp add: gnu_libc_def c)
  have "main gnu_libc ?argv ?W
      = run_configuration (word_of_int (strtol gnu_libc (?argv ! 1) 0))
          (word_of_int (atoi gnu_libc (?argv ! 2))) (word_of_int (atoi gnu_libc (?argv ! 3))) ?W"
    by (rule main_accepted) (simp_all only: f2 f3, simp_all)
  then have acc: "main gnu_libc ?argv ?W = run_configuration 0x17 0 0 ?W"
    by (simp only: f1 f2 f3)
  have r: "resolve 0x17 (devices ?W) = Some 0"
    by (simp add: resolve_def started_def Let_def bridge_probe)
  have v: "compute_val_new 0x00000080 0 0 = 0"
    by (simp add: compute_val_new_def mask_defs)
  show ?thesis
    unfolding acc run_configuration_found [OF r]
    by (simp add: a started_def bridge_reg_0x180 v parameter_events_def print_parameters_def
          report_events_def print_report_def dev_info_events_def print_dev_info_def
          printf_def emit_def Let_def SKX_PERFCTRLSTS_0_def PCI_SUBORDINATE_BUS_def
          PCI_SECONDARY_BUS_def)
qed

text \<open>
  C10. The flag arguments go through \<open>atoi\<close> and a cast to \<open>uint8_t\<close> before the
  check against 1: when the integers \<open>atoi\<close> returns for \<open>argv[2]\<close> and \<open>argv[3]\<close> are
  congruent to 0 or 1 modulo 256, the flags are those residues, validation passes and
  \<open>main\<close> continues with them as it does for 0 and 1.
\<close>

theorem main_flags_truncated_to_8_bits:
  assumes "length argv = 4"
    and "atoi lc (argv ! 2) mod 256 = x" and "x = 0 \<or> x = 1"
    and "atoi lc (argv ! 3) mod 256 = y" and "y = 0 \<or> y = 1"
  shows "(word_of_int (atoi lc (argv ! 2)) :: u8) = word_of_int x
     \<and> (word_of_int (atoi lc (argv ! 3)) :: u8) = word_of_int y
     \<and> main lc argv w
         = run_configuration (word_of_int (strtol lc (argv ! 1) 0))
             (word_of_int x) (word_of_int y) w"
proof -
  have a: "(word_of_int (atoi lc (argv ! 2)) :: u8) = word_of_int x"
    using assms(2) u8_of_int_mod [of "atoi lc (argv ! 2)"] by simp
  have b: "(word_of_int (atoi lc (argv ! 3)) :: u8) = word_of_int y"
    using assms(4) u8_of_int_mod [of "atoi lc (argv ! 3)"] by simp
  have "(word_of_int (atoi lc (argv ! 2)) :: u8) \<le> 1"
    and "(word_of_int (atoi lc (argv ! 3)) :: u8) \<le> 1"
    using assms(2-5) by (simp_all add: u8_of_int_le_1_iff)
  from main_accepted [OF assms(1) this] a b show ?thesis by simp
qed

theorem main_flags_truncated_to_8_bits_witness:
  "length [''./change-ddio'', ''0x17'', ''257'', ''256''] = 4
   \<and> gnu_atoi ''257'' = 257 \<and> (257::int) mod 256 = 1
   \<and> gnu_atoi ''256'' = 256 \<and> (256::int) mod 256 = 0
   \<and> main gnu_libc [''./change-ddio'', ''0x17'', ''257'', ''256'']
        (started [bridge 0x05 0 0x06 0x17 0x00000000])
       = run_configuration 0x17 1 0 (started [bridge 0x05 0 0x06 0x17 0x00000000])"
  using main_flags_truncated_to_8_bits
    [where lc = gnu_libc and argv = "[''./change-ddio'', ''0x17'', ''257'', ''256'']"
       and x = 1 and y = 0 and w = "started [bridge 0x05 0 0x06 0x17 0x00000000]"]
  by (simp add: libc_runs)

end
